theory Spec2Isabelle
  imports
    Main
    "HOL-Library.AList"
    "HOL-Library.Char_ord"
    "HOL-Library.List_Lexorder"
    "HOL-Library.Log_Nat"
    "HOL-Library.Word"
begin

section \<open>The scale app of phenix-apps: plugin registry and builtin plugin\<close>

text \<open>
  A shallow embedding of \<^verbatim>\<open>phenix_apps/apps/scale/registry.py\<close> and
  \<^verbatim>\<open>phenix_apps/apps/scale/plugins/builtin.py\<close>. Python exceptions are values of
  \<open>error\<close>; a function that can raise returns \<open>error + 'a\<close>. Python's \<open>str\<close> is
  \<open>string\<close>, compared character by character (\<open>Char_ord\<close>, \<open>List_Lexorder\<close>),
  which is Python's ordering of strings on the characters a \<open>char\<close> can hold.
\<close>

subsection \<open>Exceptions\<close>

datatype error =
    ValueError string
  | TypeError string
  | IndexError
  | OverflowError
  | ZeroDivisionError
  | AttributeError

subsection \<open>registry.py: class PluginRegistry\<close>

text \<open>
  \<^verbatim>\<open>self._plugins: Dict[str, Dict[str, Type]]\<close>. A Python dict keeps its keys in
  insertion order and an assignment to a present key keeps the key's place:
  \<open>AList.update\<close> on an association list. A registered class is used only through
  its zero-argument constructor, so it is modelled as a function \<open>unit \<Rightarrow> 'inst\<close>.
\<close>

type_synonym 'inst plugin_cls = "unit \<Rightarrow> 'inst"
type_synonym 'inst versions = "(string \<times> 'inst plugin_cls) list"
type_synonym 'inst registry = "(string \<times> 'inst versions) list"

definition PluginRegistry_init :: "'inst registry" where
  "PluginRegistry_init = []"

text \<open>
  \<^verbatim>\<open>
  def decorator(cls):
      if name not in self._plugins:
          self._plugins[name] = {}
      self._plugins[name][version] = cls
      return cls
  \<close>
  The model returns the registry after the two assignments.
\<close>

definition register_plugin ::
  "string \<Rightarrow> string \<Rightarrow> 'inst plugin_cls \<Rightarrow> 'inst registry \<Rightarrow> 'inst registry" where
  "register_plugin name version cls plugins =
     (let plugins1 = (if map_of plugins name = None then AList.update name [] plugins
                      else plugins)
      in AList.map_entry name (AList.update version cls) plugins1)"

text \<open>The two messages of \<^verbatim>\<open>get_plugin\<close>'s \<^verbatim>\<open>ValueError\<close>s (f-strings).\<close>

definition msg_plugin_not_found :: "string \<Rightarrow> string" where
  "msg_plugin_not_found name = ''Plugin '' @ [CHR 0x27] @ name @ [CHR 0x27] @ '' not found.''"

definition msg_version_not_found :: "string \<Rightarrow> string \<Rightarrow> string" where
  "msg_version_not_found name version =
     ''Plugin '' @ [CHR 0x27] @ name @ [CHR 0x27] @ '' version '' @ [CHR 0x27] @ version
       @ [CHR 0x27] @ '' not found.''"

text \<open>\<^verbatim>\<open>xs[-1]\<close>: the last element, \<^verbatim>\<open>IndexError\<close> on an empty list.\<close>

definition py_last :: "'a list \<Rightarrow> error + 'a" where
  "py_last xs = (if xs = [] then Inl IndexError else Inr (last xs))"

text \<open>
  \<^verbatim>\<open>
  def get_plugin(self, name, version="latest"):
      if name not in self._plugins:
          raise ValueError(f"Plugin '{name}' not found.")
      versions = self._plugins[name]
      if version == "latest":
          version = sorted(versions.keys())[-1]
      if version not in versions:
          raise ValueError(f"Plugin '{name}' version '{version}' not found.")
      cls = versions[version]
      return cls()
  \<close>
  The registry is threaded through: the second component of the result is the
  registry after the call.
\<close>

definition get_plugin ::
  "string \<Rightarrow> string \<Rightarrow> 'inst registry \<Rightarrow> (error + 'inst) \<times> 'inst registry" where
  "get_plugin name version plugins =
     (case map_of plugins name of
        None \<Rightarrow> (Inl (ValueError (msg_plugin_not_found name)), plugins)
      | Some versions \<Rightarrow>
          (case (if version = ''latest'' then py_last (sort (map fst versions))
                 else Inr version) of
             Inl e \<Rightarrow> (Inl e, plugins)
           | Inr version' \<Rightarrow>
               (case map_of versions version' of
                  None \<Rightarrow> (Inl (ValueError (msg_version_not_found name version')), plugins)
                | Some cls \<Rightarrow> (Inr (cls ()), plugins))))"

text \<open>The entry stored under a \<open>(name, version)\<close> key: \<^verbatim>\<open>_plugins[name][version]\<close>.\<close>

definition entry :: "'inst registry \<Rightarrow> string \<Rightarrow> string \<Rightarrow> 'inst plugin_cls option" where
  "entry plugins name version =
     (case map_of plugins name of None \<Rightarrow> None | Some versions \<Rightarrow> map_of versions version)"

definition registered :: "'inst registry \<Rightarrow> (string \<times> string) set" where
  "registered plugins = {(name, version). entry plugins name version \<noteq> None}"

text \<open>The operations a process performs on the registry, and a run of them.\<close>

datatype 'inst registry_op =
    Register string string "'inst plugin_cls"
  | Resolve string string

fun apply_registry_op :: "'inst registry_op \<Rightarrow> 'inst registry \<Rightarrow> 'inst registry" where
  "apply_registry_op (Register name version cls) plugins = register_plugin name version cls plugins"
| "apply_registry_op (Resolve name version) plugins = snd (get_plugin name version plugins)"

fun run_registry_ops :: "'inst registry_op list \<Rightarrow> 'inst registry \<Rightarrow> 'inst registry" where
  "run_registry_ops [] plugins = plugins"
| "run_registry_ops (op # ops) plugins = run_registry_ops ops (apply_registry_op op plugins)"

subsection \<open>Python values and builtins used by builtin.py\<close>

text \<open>
  A profile is a mapping from keys to Python values. Integers and strings are modelled
  as they are; any other value (a float, a bool, \<^verbatim>\<open>None\<close>, a list) is a \<open>PyOther\<close>.
  \<^verbatim>\<open>int(x)\<close> returns an \<^verbatim>\<open>int\<close> as it is; what it does on another value (parse a
  string, truncate a float, raise \<^verbatim>\<open>ValueError\<close> or \<^verbatim>\<open>TypeError\<close>) is the parameter
  \<open>int_conv\<close>. \<^verbatim>\<open>str(x)\<close> returns a \<^verbatim>\<open>str\<close> as it is and an \<^verbatim>\<open>int\<close> in decimal; on
  another value it is the parameter \<open>str_conv\<close>.
\<close>

datatype 'a pyval = PyInt int | PyStr string | PyOther 'a

type_synonym 'a profile = "string \<rightharpoonup> 'a pyval"

definition dict_get :: "('k \<rightharpoonup> 'v) \<Rightarrow> 'k \<Rightarrow> 'v \<Rightarrow> 'v" where
  "dict_get d k dflt = (case d k of None \<Rightarrow> dflt | Some v \<Rightarrow> v)"

fun py_int :: "('a pyval \<Rightarrow> error + int) \<Rightarrow> 'a pyval \<Rightarrow> error + int" where
  "py_int int_conv (PyInt n) = Inr n"
| "py_int int_conv v = int_conv v"

function str_nat :: "nat \<Rightarrow> string" where
  "str_nat n =
     (if n < 10 then [''0123456789'' ! n]
      else str_nat (n div 10) @ [''0123456789'' ! (n mod 10)])"
  by pat_completeness auto
termination
  by (relation "measure id") auto

declare str_nat.simps [simp del]

definition str_int :: "int \<Rightarrow> string" where
  "str_int i = (if i < 0 then CHR ''-'' # str_nat (nat (- i)) else str_nat (nat i))"

fun py_str :: "('a \<Rightarrow> string) \<Rightarrow> 'a pyval \<Rightarrow> string" where
  "py_str str_conv (PyInt n) = str_int n"
| "py_str str_conv (PyStr s) = s"
| "py_str str_conv (PyOther x) = str_conv x"

subsection \<open>Python's true division of integers and \<^verbatim>\<open>math.ceil\<close>\<close>

text \<open>
  \<^verbatim>\<open>a / b\<close> on two \<^verbatim>\<open>int\<close>s is a \<^verbatim>\<open>float\<close>: the IEEE 754 binary64 number nearest
  to the quotient, ties to the even significand; \<^verbatim>\<open>OverflowError\<close> when that number
  would be beyond the largest finite double; \<^verbatim>\<open>ZeroDivisionError\<close> when \<open>b = 0\<close>.
  A finite double is modelled exactly, as a pair \<open>(m, e)\<close> of integers that stands for
  \<open>m * 2 ^ e\<close>, with \<open>\<bar>m\<bar> \<le> 2 ^ 53\<close> and \<open>- 1074 \<le> e\<close>.

  For \<open>0 < a\<close> and \<open>0 < b\<close>, \<open>floor_log2_quot a b\<close> is \<open>\<lfloor>log\<^sub>2 (a / b)\<rfloor>\<close>, found from
  the bit lengths of \<open>a\<close> and \<open>b\<close> (\<open>bitlen\<close> is \<^verbatim>\<open>int.bit_length\<close>), and
  \<open>float64_exponent a b\<close> is the exponent of the last place of the doubles around
  \<open>a / b\<close>: 52 places below the leading one, and \<open>- 1074\<close> in the subnormal range.
  \<open>round_half_even num den\<close> is the integer nearest to \<open>num / den\<close>, ties to even.
\<close>

type_synonym float64 = "int \<times> int"

definition floor_log2_quot :: "int \<Rightarrow> int \<Rightarrow> int" where
  "floor_log2_quot a b =
     (let d = bitlen a - bitlen b
      in if b * 2 ^ nat d \<le> a * 2 ^ nat (- d) then d else d - 1)"

definition float64_exponent :: "int \<Rightarrow> int \<Rightarrow> int" where
  "float64_exponent a b = max (floor_log2_quot a b - 52) (- 1074)"

definition round_half_even :: "int \<Rightarrow> int \<Rightarrow> int" where
  "round_half_even num den =
     (let q = num div den; r = num mod den
      in if den < 2 * r \<or> (2 * r = den \<and> odd q) then q + 1 else q)"

definition truediv_pos :: "int \<Rightarrow> int \<Rightarrow> error + float64" where
  "truediv_pos a b =
     (let e = float64_exponent a b;
          m = round_half_even (a * 2 ^ nat (- e)) (b * 2 ^ nat e)
      in if 971 < e \<or> (e = 971 \<and> m = 2 ^ 53) then Inl OverflowError else Inr (m, e))"

definition py_truediv :: "int \<Rightarrow> int \<Rightarrow> error + float64" where
  "py_truediv a b =
     (if b = 0 then Inl ZeroDivisionError
      else if a = 0 then Inr (0, 0)
      else (case truediv_pos \<bar>a\<bar> \<bar>b\<bar> of
              Inl err \<Rightarrow> Inl err
            | Inr (m, e) \<Rightarrow> Inr (sgn a * sgn b * m, e)))"

text \<open>\<^verbatim>\<open>math.ceil(x)\<close> of a finite double: the least integer not below \<open>m * 2 ^ e\<close>.\<close>

definition math_ceil :: "float64 \<Rightarrow> int" where
  "math_ceil x =
     (case x of (m, e) \<Rightarrow>
        if 0 \<le> e then m * 2 ^ nat e else - ((- m) div 2 ^ nat (- e)))"

subsection \<open>builtin.py: class BuiltinConfig\<close>

record BuiltinConfig =
  count :: int
  containers :: int
  containers_per_node :: int
  hostname_prefix :: string

text \<open>
  \<^verbatim>\<open>
  def __init__(self, **kwargs):
      self.count = int(kwargs.get("count", 1))
      self.containers = int(kwargs.get("containers", 0))
      self.containers_per_node = int(kwargs.get("containers_per_node", 0))
      self.hostname_prefix = str(kwargs.get("hostname_prefix", "node"))
      if self.count < 1:
          raise ValueError("count must be >= 1")
      if self.containers < 0:
          raise ValueError("containers must be >= 0")
      if self.containers_per_node < 0:
          raise ValueError("containers_per_node must be >= 0")
  \<close>
  An exception raised in \<^verbatim>\<open>__init__\<close> leaves the caller without an object: the
  result is \<open>Inl\<close>.
\<close>

definition BuiltinConfig_init ::
  "('a pyval \<Rightarrow> error + int) \<Rightarrow> ('a \<Rightarrow> string) \<Rightarrow> 'a profile \<Rightarrow> error + BuiltinConfig" where
  "BuiltinConfig_init int_conv str_conv kwargs =
     (case py_int int_conv (dict_get kwargs ''count'' (PyInt 1)) of
        Inl err \<Rightarrow> Inl err
      | Inr c \<Rightarrow>
     (case py_int int_conv (dict_get kwargs ''containers'' (PyInt 0)) of
        Inl err \<Rightarrow> Inl err
      | Inr n \<Rightarrow>
     (case py_int int_conv (dict_get kwargs ''containers_per_node'' (PyInt 0)) of
        Inl err \<Rightarrow> Inl err
      | Inr p \<Rightarrow>
     (let prefix = py_str str_conv (dict_get kwargs ''hostname_prefix'' (PyStr ''node''))
      in if c < 1 then Inl (ValueError ''count must be >= 1'')
         else if n < 0 then Inl (ValueError ''containers must be >= 0'')
         else if p < 0 then Inl (ValueError ''containers_per_node must be >= 0'')
         else Inr \<lparr>count = c, containers = n, containers_per_node = p,
                    hostname_prefix = prefix\<rparr>))))"

subsection \<open>builtin.py: classes BuiltinV1 and BuiltinV2\<close>

text \<open>
  An instance has its class and the attribute \<^verbatim>\<open>self.config\<close>, which is absent until
  \<^verbatim>\<open>pre_configure\<close> or \<^verbatim>\<open>pre_post_start\<close> has set it; reading it before is an
  \<^verbatim>\<open>AttributeError\<close>. \<open>BuiltinV2\<close> inherits every method of \<open>BuiltinV1\<close> but
  \<^verbatim>\<open>pre_configure\<close> and \<^verbatim>\<open>get_hostname\<close>. The log that \<^verbatim>\<open>logger.log\<close> writes to is
  a list of (level, message) pairs.
\<close>

datatype builtin_cls = BuiltinV1 | BuiltinV2

record plugin =
  py_class :: builtin_cls
  config :: "BuiltinConfig option"

type_synonym log = "(string \<times> string) list"

definition new_plugin :: "builtin_cls \<Rightarrow> plugin" where
  "new_plugin c = \<lparr>py_class = c, config = None\<rparr>"

text \<open>\<^verbatim>\<open>self.config = BuiltinConfig(**profile)\<close>: the body of \<^verbatim>\<open>BuiltinV1.pre_configure\<close>
  and of \<^verbatim>\<open>pre_post_start\<close>.\<close>

definition set_config ::
  "('a pyval \<Rightarrow> error + int) \<Rightarrow> ('a \<Rightarrow> string) \<Rightarrow> 'a profile \<Rightarrow> plugin
     \<Rightarrow> (error + unit) \<times> plugin" where
  "set_config int_conv str_conv profile self =
     (case BuiltinConfig_init int_conv str_conv profile of
        Inl err \<Rightarrow> (Inl err, self)
      | Inr c \<Rightarrow> (Inr (), self\<lparr>config := Some c\<rparr>))"

text \<open>
  \<^verbatim>\<open>
  # BuiltinV2
  def pre_configure(self, _app, profile):
      super().pre_configure(_app, profile)
      p_name = profile.get("name", "unknown")
      logger.log("INFO", f"Using builtin plugin v2.0.0 for profile '{p_name}'")
  \<close>
\<close>

definition pre_configure ::
  "('a pyval \<Rightarrow> error + int) \<Rightarrow> ('a \<Rightarrow> string) \<Rightarrow> 'a profile \<Rightarrow> plugin \<times> log
     \<Rightarrow> (error + unit) \<times> plugin \<times> log" where
  "pre_configure int_conv str_conv profile st =
     (case st of (self, lg) \<Rightarrow>
        (case set_config int_conv str_conv profile self of
           (Inl err, self') \<Rightarrow> (Inl err, self', lg)
         | (Inr u, self') \<Rightarrow>
             (case py_class self of
                BuiltinV1 \<Rightarrow> (Inr (), self', lg)
              | BuiltinV2 \<Rightarrow>
                  (let p_name = dict_get profile ''name'' (PyStr ''unknown'')
                   in (Inr (), self',
                       lg @ [(''INFO'', ''Using builtin plugin v2.0.0 for profile ''
                                @ [CHR 0x27] @ py_str str_conv p_name @ [CHR 0x27])])))))"

definition pre_post_start ::
  "('a pyval \<Rightarrow> error + int) \<Rightarrow> ('a \<Rightarrow> string) \<Rightarrow> 'a profile \<Rightarrow> plugin \<times> log
     \<Rightarrow> (error + unit) \<times> plugin \<times> log" where
  "pre_post_start int_conv str_conv profile st =
     (case st of (self, lg) \<Rightarrow>
        (case set_config int_conv str_conv profile self of (r, self') \<Rightarrow> (r, self', lg)))"

text \<open>
  \<^verbatim>\<open>
  def get_node_count(self):
      if self.config.containers > 0 and self.config.containers_per_node > 0:
          return math.ceil(self.config.containers / self.config.containers_per_node)
      return self.config.count
  \<close>
\<close>

definition get_node_count :: "plugin \<Rightarrow> error + int" where
  "get_node_count self =
     (case config self of
        None \<Rightarrow> Inl AttributeError
      | Some c \<Rightarrow>
          if 0 < containers c \<and> 0 < containers_per_node c
          then (case py_truediv (containers c) (containers_per_node c) of
                  Inl err \<Rightarrow> Inl err
                | Inr x \<Rightarrow> Inr (math_ceil x))
          else Inr (count c))"

text \<open>
  \<^verbatim>\<open>
  def get_hostname(self, index):                       # BuiltinV1
      return f"{self.config.hostname_prefix}-{index}"
  def get_hostname(self, index):                       # BuiltinV2
      return f"v2-{self.config.hostname_prefix}-{index}"
  \<close>
\<close>

definition get_hostname :: "plugin \<Rightarrow> int \<Rightarrow> error + string" where
  "get_hostname self index =
     (case config self of
        None \<Rightarrow> Inl AttributeError
      | Some c \<Rightarrow>
          (case py_class self of
             BuiltinV1 \<Rightarrow> Inr (hostname_prefix c @ ''-'' @ str_int index)
           | BuiltinV2 \<Rightarrow> Inr (''v2-'' @ hostname_prefix c @ ''-'' @ str_int index)))"

text \<open>
  \<^verbatim>\<open>
  def get_container_count(self, index):
      if self.config.containers > 0 and self.config.containers_per_node > 0:
          total = self.config.containers
          per_node = self.config.containers_per_node
          nodes = self.get_node_count()
          if index == nodes:
              return total - ((nodes - 1) * per_node)
          return per_node
      return 0
  \<close>
\<close>

definition get_container_count :: "plugin \<Rightarrow> int \<Rightarrow> error + int" where
  "get_container_count self index =
     (case config self of
        None \<Rightarrow> Inl AttributeError
      | Some c \<Rightarrow>
          if 0 < containers c \<and> 0 < containers_per_node c
          then (let total = containers c; per_node = containers_per_node c
                in case get_node_count self of
                     Inl err \<Rightarrow> Inl err
                   | Inr nodes \<Rightarrow>
                       if index = nodes then Inr (total - ((nodes - 1) * per_node))
                       else Inr per_node)
          else Inr 0)"

text \<open>
  The containers of a whole profile, as the caller of the plugin adds them up: the sum
  of \<^verbatim>\<open>get_container_count(i)\<close> for \<^verbatim>\<open>i\<close> in \<^verbatim>\<open>range(1, get_node_count() + 1)\<close>.
\<close>

fun sum_results :: "(error + int) list \<Rightarrow> error + int" where
  "sum_results [] = Inr 0"
| "sum_results (Inl err # rs) = Inl err"
| "sum_results (Inr x # rs) = (case sum_results rs of Inl err \<Rightarrow> Inl err | Inr y \<Rightarrow> Inr (x + y))"

definition total_container_count :: "plugin \<Rightarrow> error + int" where
  "total_container_count self =
     (case get_node_count self of
        Inl err \<Rightarrow> Inl err
      | Inr nodes \<Rightarrow> sum_results (map (get_container_count self) [1..nodes]))"

subsection \<open>The Extended strategy: addresses of the workload endpoints\<close>

text \<open>
  Modelled from the spec: the Extended strategy (the wind-turbine plugin and its
  \<^verbatim>\<open>_get_container_details\<close>) is not part of the sources, only its test
  \<^verbatim>\<open>tests/test_wind_turbine.py\<close> is. The definitions below follow the addressing
  policy of the specification: a CIDR is an address portion (a 32-bit IPv4 address, here its
  numeric value) and a prefix length; addressing starts at the address after the base address
  when all host bits are zero and at the address itself otherwise; each subsequent node and
  role takes the next sequential address; an endpoint record holds its role, the bare
  address \<^verbatim>\<open>topology_ip\<close> and the address with the prefix length in
  \<^verbatim>\<open>ips[0]\<close>. The roles of a node are a parameter: the specification fixes
  only that their number is constant. Node indices start at 1, as in the test.
\<close>

record cidr =
  address :: nat
  prefix_len :: nat

definition ip4 :: "nat \<Rightarrow> nat \<Rightarrow> nat \<Rightarrow> nat \<Rightarrow> nat" where
  "ip4 a b c d = ((a * 256 + b) * 256 + c) * 256 + d"

definition str_ip :: "nat \<Rightarrow> string" where
  "str_ip a = str_nat (a div 16777216 mod 256) @ ''.'' @ str_nat (a div 65536 mod 256) @ ''.''
     @ str_nat (a div 256 mod 256) @ ''.'' @ str_nat (a mod 256)"

definition host_bits :: "cidr \<Rightarrow> nat" where
  "host_bits c = address c mod 2 ^ (32 - prefix_len c)"

definition first_address :: "cidr \<Rightarrow> nat" where
  "first_address c = (if host_bits c = 0 then address c + 1 else address c)"

record container_detail =
  role :: string
  topology_ip :: string
  ips :: "string list"

definition endpoint :: "cidr \<Rightarrow> nat \<Rightarrow> string \<Rightarrow> container_detail" where
  "endpoint c a r =
     \<lparr>role = r, topology_ip = str_ip a, ips = [str_ip a @ ''/'' @ str_nat (prefix_len c)]\<rparr>"

definition get_container_details :: "string list \<Rightarrow> cidr \<Rightarrow> nat \<Rightarrow> container_detail list" where
  "get_container_details roles c index =
     map (\<lambda>(j, r). endpoint c (first_address c + (index - 1) * length roles + j) r)
       (enumerate 0 roles)"


section \<open>True division: the exponent of the quotient\<close>

lemma scaled_le_iff:
  "(b * 2 ^ nat d \<le> a * 2 ^ nat (- d)) \<longleftrightarrow> (real_of_int b * 2 powi d \<le> real_of_int a)"
proof (cases "0 \<le> d")
  case True
  then have "real_of_int b * 2 powi d = real_of_int (b * 2 ^ nat d)"
    by (simp add: power_int_nonneg_exp)
  moreover have "a * 2 ^ nat (- d) = a" using True by simp
  ultimately show ?thesis by (metis of_int_le_iff)
next
  case False
  define k where "k = nat (- d)"
  have d: "d = - int k" using False by (simp add: k_def)
  have "real_of_int b * 2 powi d \<le> real_of_int a
      \<longleftrightarrow> real_of_int b \<le> real_of_int a * 2 ^ k"
    unfolding d by (simp add: power_int_minus field_simps)
  also have "\<dots> \<longleftrightarrow> real_of_int b \<le> real_of_int (a * 2 ^ k)"
    by simp
  also have "\<dots> \<longleftrightarrow> b \<le> a * 2 ^ k"
    by (simp only: of_int_le_iff)
  finally show ?thesis using False by (simp add: k_def)
qed

lemma powi2_le_iff: "(2::real) powi m \<le> 2 powi n \<longleftrightarrow> m \<le> n"
proof
  assume le: "(2::real) powi m \<le> 2 powi n"
  show "m \<le> n"
  proof (rule ccontr)
    assume "\<not> m \<le> n"
    then have "(2::real) powi n < 2 powi m"
      by (intro power_int_strict_increasing) auto
    with le show False by simp
  qed
next
  assume "m \<le> n"
  then show "(2::real) powi m \<le> 2 powi n"
    by (intro power_int_increasing) auto
qed

lemma powi2_less_iff: "(2::real) powi m < 2 powi n \<longleftrightarrow> m < n"
  using powi2_le_iff [of n m] by (auto simp: not_le [symmetric])

lemma bitlen_bounds_powi:
  assumes "0 < a"
  shows "2 powi (bitlen a - 1) \<le> real_of_int a" and "real_of_int a < 2 powi (bitlen a)"
proof -
  from assms have "1 \<le> bitlen a" by (simp add: bitlen_alt_def)
  moreover from bitlen_bounds [OF assms]
  have "real_of_int (2 ^ nat (bitlen a - 1)) \<le> real_of_int a"
    and "real_of_int a < real_of_int (2 ^ nat (bitlen a))"
    by (simp_all only: of_int_le_iff of_int_less_iff)
  ultimately show "2 powi (bitlen a - 1) \<le> real_of_int a" and "real_of_int a < 2 powi (bitlen a)"
    by (simp_all add: power_int_nonneg_exp)
qed

lemma floor_log2_quot_bounds:
  assumes "0 < a" and "0 < b"
  shows "real_of_int b * 2 powi (floor_log2_quot a b) \<le> real_of_int a"
    and "real_of_int a < real_of_int b * 2 powi (floor_log2_quot a b + 1)"
proof -
  define d where "d = bitlen a - bitlen b"
  have a1: "2 powi (bitlen a - 1) \<le> real_of_int a" and a2: "real_of_int a < 2 powi (bitlen a)"
    using bitlen_bounds_powi [OF assms(1)] by auto
  have b1: "2 powi (bitlen b - 1) \<le> real_of_int b" and b2: "real_of_int b < 2 powi (bitlen b)"
    using bitlen_bounds_powi [OF assms(2)] by auto
  have rb: "0 < real_of_int b" using assms(2) by simp
  have up: "real_of_int a < real_of_int b * 2 powi (d + 1)"
  proof -
    have "2 powi (bitlen a) = (2::real) powi (bitlen b - 1) * 2 powi (d + 1)"
      by (simp add: d_def power_int_add [symmetric])
    also have "\<dots> \<le> real_of_int b * 2 powi (d + 1)"
      using b1 by (simp add: mult_right_mono)
    finally show ?thesis using a2 by linarith
  qed
  have lo: "real_of_int b * 2 powi (d - 1) \<le> real_of_int a"
  proof -
    have "real_of_int b * 2 powi (d - 1) \<le> 2 powi (bitlen b) * 2 powi (d - 1)"
      using b2 by (simp add: mult_right_mono)
    also have "\<dots> = (2::real) powi (bitlen a - 1)"
      by (simp add: d_def power_int_add [symmetric])
    finally show ?thesis using a1 by linarith
  qed
  show "real_of_int b * 2 powi (floor_log2_quot a b) \<le> real_of_int a"
    using lo by (simp add: floor_log2_quot_def d_def [symmetric] scaled_le_iff Let_def)
  show "real_of_int a < real_of_int b * 2 powi (floor_log2_quot a b + 1)"
    using up by (simp add: floor_log2_quot_def d_def [symmetric] scaled_le_iff Let_def not_le)
qed

lemma floor_log2_quot_le:
  assumes "0 < a" and "0 < b" and "real_of_int a \<le> real_of_int b * 2 powi k"
  shows "floor_log2_quot a b \<le> k"
proof -
  have rb: "0 < real_of_int b" using assms(2) by simp
  from floor_log2_quot_bounds(1) [OF assms(1,2)] assms(3)
  have "real_of_int b * 2 powi (floor_log2_quot a b) \<le> real_of_int b * 2 powi k" by linarith
  with rb have "(2::real) powi (floor_log2_quot a b) \<le> 2 powi k" by simp
  then show ?thesis by (simp add: powi2_le_iff)
qed

lemma floor_log2_quot_ge:
  assumes "0 < a" and "0 < b" and "real_of_int b * 2 powi k \<le> real_of_int a"
  shows "k \<le> floor_log2_quot a b"
proof -
  have rb: "0 < real_of_int b" using assms(2) by simp
  from floor_log2_quot_bounds(2) [OF assms(1,2)] assms(3)
  have "real_of_int b * 2 powi k < real_of_int b * 2 powi (floor_log2_quot a b + 1)" by linarith
  with rb have "(2::real) powi k < 2 powi (floor_log2_quot a b + 1)" by simp
  then have "k < floor_log2_quot a b + 1"
    by (simp add: powi2_less_iff)
  then show ?thesis by simp
qed

section \<open>True division: underflow and overflow\<close>

lemma round_half_even_zero:
  assumes "0 \<le> num" and "2 * num < den"
  shows "round_half_even num den = 0"
proof -
  from assms have "num < den" by linarith
  with assms(1) have "num div den = 0" and "num mod den = num" by simp_all
  with assms(2) show ?thesis by (simp add: round_half_even_def)
qed

lemma scaled_up_le_powi:
  assumes "a * 2 ^ n \<le> (b::int)"
  shows "real_of_int a \<le> real_of_int b * 2 powi (- int n)"
proof -
  have "real_of_int (a * 2 ^ n) \<le> real_of_int b"
    using assms by (simp only: of_int_le_iff)
  then have "real_of_int a * 2 ^ n \<le> real_of_int b" by simp
  then show ?thesis by (simp add: power_int_minus field_simps)
qed

lemma scaled_down_le_powi:
  assumes "b * 2 ^ n \<le> (a::int)"
  shows "real_of_int b * 2 powi (int n) \<le> real_of_int a"
proof -
  have "real_of_int (b * 2 ^ n) \<le> real_of_int a"
    using assms by (simp only: of_int_le_iff)
  then show ?thesis by simp
qed

text \<open>A quotient of at most \<open>2\<^sup>-\<^sup>1\<^sup>0\<^sup>7\<^sup>6\<close> is rounded to the double \<open>0.0\<close>.\<close>

lemma truediv_pos_underflow:
  assumes "0 < a" and "0 < b" and "a * 2 ^ 1076 \<le> b"
  shows "truediv_pos a b = Inr (0, - 1074)"
proof -
  define N :: nat where "N = 1074"
  have N2: "(1076::nat) = N + 2" by (simp add: N_def)
  have le: "a * 2 ^ (N + 2) \<le> b" using assms(3) unfolding N2 .
  have Ppos: "(0::int) < 2 ^ N" by (rule zero_less_power) simp
  from scaled_up_le_powi [OF le]
  have "real_of_int a \<le> real_of_int b * 2 powi (- int (N + 2))" .
  from floor_log2_quot_le [OF assms(1,2) this]
  have "floor_log2_quot a b \<le> - int (N + 2)" .
  then have e: "float64_exponent a b = - int N"
    by (simp add: float64_exponent_def N_def)
  have "0 \<le> a * 2 ^ N" using assms(1) Ppos by simp
  moreover have "2 * (a * 2 ^ N) < b"
  proof -
    have "0 < a * 2 ^ N" using assms(1) Ppos by simp
    then have "2 * (a * 2 ^ N) < 4 * (a * 2 ^ N)" by linarith
    also have "\<dots> = a * 2 ^ (N + 2)" by (simp add: power_add)
    finally show ?thesis using le by linarith
  qed
  ultimately have r: "round_half_even (a * 2 ^ N) b = 0" by (rule round_half_even_zero)
  have "truediv_pos a b = Inr (0, - int N)"
    by (simp add: truediv_pos_def e Let_def r)
  then show ?thesis by (simp add: N_def)
qed

text \<open>A quotient of at least \<open>2\<^sup>1\<^sup>0\<^sup>2\<^sup>4\<close> is beyond the doubles.\<close>

lemma truediv_pos_overflow:
  assumes "0 < a" and "0 < b" and "b * 2 ^ 1024 \<le> a"
  shows "truediv_pos a b = Inl OverflowError"
proof -
  define N :: nat where "N = 1024"
  have le: "b * 2 ^ N \<le> a" using assms(3) unfolding N_def .
  from floor_log2_quot_ge [OF assms(1,2) scaled_down_le_powi [OF le]]
  have "971 < float64_exponent a b" by (simp add: float64_exponent_def N_def)
  then show ?thesis
    by (simp add: truediv_pos_def Let_def)
qed

lemma py_truediv_underflow: "py_truediv 1 (2 ^ 1076) = Inr (0, - 1074)"
proof -
  have "truediv_pos 1 (2 ^ 1076) = Inr (0, - 1074)"
    by (rule truediv_pos_underflow) (simp_all del: power_numeral)
  moreover have "(2::int) ^ 1076 \<noteq> 0" by (rule power_not_zero) simp
  moreover have "\<bar>(2::int) ^ 1076\<bar> = 2 ^ 1076" by (rule abs_of_nonneg) (rule zero_le_power, simp)
  moreover have "sgn ((2::int) ^ 1076) = 1" by (simp del: power_numeral)
  ultimately show ?thesis by (simp add: py_truediv_def del: power_numeral)
qed

lemma py_truediv_overflow: "py_truediv (2 ^ 1024) 1 = Inl OverflowError"
proof -
  have "truediv_pos (2 ^ 1024) 1 = Inl OverflowError"
    by (rule truediv_pos_overflow) (simp_all del: power_numeral)
  moreover have "(2::int) ^ 1024 \<noteq> 0" by (rule power_not_zero) simp
  moreover have "\<bar>(2::int) ^ 1024\<bar> = 2 ^ 1024" by (rule abs_of_nonneg) (rule zero_le_power, simp)
  ultimately show ?thesis by (simp add: py_truediv_def del: power_numeral)
qed

section \<open>Registry: registration\<close>

lemma map_of_map_entry:
  "map_of (AList.map_entry k f al) k' =
     (if k' = k then map_option f (map_of al k) else map_of al k')"
  by (induction al) auto

lemma entry_register_plugin:
  "entry (register_plugin name version cls plugins) name' version' =
     (if name' = name \<and> version' = version then Some cls else entry plugins name' version')"
  by (auto simp: entry_def register_plugin_def map_of_map_entry AList.update_conv'
      split: option.splits)

lemma snd_get_plugin: "snd (get_plugin name version plugins) = plugins"
  by (simp add: get_plugin_def split: option.splits sum.splits)

lemma registered_apply_registry_op:
  "registered plugins \<subseteq> registered (apply_registry_op op plugins)"
  by (cases op) (auto simp: registered_def entry_register_plugin snd_get_plugin)

lemma registered_run_registry_ops:
  "registered plugins \<subseteq> registered (run_registry_ops ops plugins)"
proof (induction ops arbitrary: plugins)
  case Nil
  show ?case by simp
next
  case (Cons op ops)
  have "registered plugins \<subseteq> registered (apply_registry_op op plugins)"
    by (rule registered_apply_registry_op)
  also have "\<dots> \<subseteq> registered (run_registry_ops ops (apply_registry_op op plugins))"
    by (rule Cons.IH)
  finally show ?case by simp
qed

text \<open>
  C7. Registering under \<open>(name, version)\<close> stores the class under that key, replacing
  what was there, and leaves the entry of every other key as it was; \<open>get_plugin\<close>
  returns the registry it was given; and over any run of registrations and resolutions
  every key that was registered stays registered.
\<close>

theorem register_plugin_frame_and_monotone:
  "entry (register_plugin name version cls plugins) name' version' =
     (if name' = name \<and> version' = version then Some cls else entry plugins name' version')
   \<and> entry (register_plugin name version cls' (register_plugin name version cls plugins))
        name version = Some cls'
   \<and> snd (get_plugin name version plugins) = plugins
   \<and> registered plugins \<subseteq> registered (apply_registry_op op plugins)
   \<and> registered plugins \<subseteq> registered (run_registry_ops ops plugins)"
  by (simp add: entry_register_plugin snd_get_plugin registered_apply_registry_op
      registered_run_registry_ops)

section \<open>Registry: resolution\<close>

lemma sorted_last_Max: "sorted xs \<Longrightarrow> xs \<noteq> [] \<Longrightarrow> last xs = Max (set xs)"
proof (induction xs)
  case Nil
  then show ?case by simp
next
  case (Cons x xs)
  show ?case
  proof (cases "xs = []")
    case True
    then show ?thesis by simp
  next
    case False
    with Cons have l: "last xs = Max (set xs)" by simp
    have "x \<le> Max (set xs)"
      using Cons.prems(1) False l by (metis last_in_set sorted_simps(2))
    with l show ?thesis using False by (simp add: max_absorb2)
  qed
qed

lemma sort_eq_Nil_iff: "sort xs = [] \<longleftrightarrow> xs = []"
  by (metis length_sort length_0_conv)

lemma last_sort_Max: "xs \<noteq> [] \<Longrightarrow> last (sort xs) = Max (set xs)"
  using sorted_last_Max [of "sort xs"] by (simp add: sort_eq_Nil_iff)

lemma py_last_sort_keys:
  "versions \<noteq> [] \<Longrightarrow> py_last (sort (map fst versions)) = Inr (Max (fst ` set versions))"
  by (simp add: py_last_def last_sort_Max sort_eq_Nil_iff)

lemma Max_key_in_map_of:
  assumes "versions \<noteq> []"
  shows "\<exists>cls. map_of versions (Max (fst ` set versions)) = Some cls"
proof -
  from assms have "Max (fst ` set versions) \<in> fst ` set versions"
    by (intro Max_in) auto
  then show ?thesis
    by (metis domIff dom_map_of_conv_image_fst not_Some_eq)
qed

text \<open>
  C3. When \<open>name\<close> has at least one registered version, resolving \<open>(name, ''latest'')\<close>
  instantiates the class stored under the greatest version string in the lexicographic
  order of strings. After registering \<open>(''builtin'', ''1.0.0'')\<close> and then
  \<open>(''builtin'', ''2.0.0'')\<close>, latest is the instance of the \<open>2.0.0\<close> class; a
  registered \<open>''10.0.0''\<close> sorts before \<open>''2.0.0''\<close> and is not chosen over it.
\<close>

theorem get_plugin_latest_lexicographic:
  "(map_of plugins name = Some versions \<and> versions \<noteq> [] \<longrightarrow>
      (\<exists>cls. map_of versions (Max (fst ` set versions)) = Some cls \<and>
             get_plugin name ''latest'' plugins = (Inr (cls ()), plugins)) \<and>
      (\<forall>version \<in> fst ` set versions. version \<le> Max (fst ` set versions)))
   \<and> fst (get_plugin ''builtin'' ''latest''
          (register_plugin ''builtin'' ''2.0.0'' f2
            (register_plugin ''builtin'' ''1.0.0'' f1 PluginRegistry_init))) = Inr (f2 ())
   \<and> fst (get_plugin ''builtin'' ''latest''
          (register_plugin ''builtin'' ''10.0.0'' f10
            (register_plugin ''builtin'' ''2.0.0'' f2
              (register_plugin ''builtin'' ''1.0.0'' f1 PluginRegistry_init)))) = Inr (f2 ())
   \<and> ''10.0.0'' < ''2.0.0''"
proof -
  have general: "(\<exists>cls. map_of versions (Max (fst ` set versions)) = Some cls \<and>
             get_plugin name ''latest'' plugins = (Inr (cls ()), plugins)) \<and>
      (\<forall>version \<in> fst ` set versions. version \<le> Max (fst ` set versions))"
    if reg: "map_of plugins name = Some versions" and ne: "versions \<noteq> []"
  proof -
    from Max_key_in_map_of [OF ne] obtain cls
      where cls: "map_of versions (Max (fst ` set versions)) = Some cls" by blast
    have "get_plugin name ''latest'' plugins = (Inr (cls ()), plugins)"
      using reg cls py_last_sort_keys [OF ne] by (simp add: get_plugin_def)
    with cls show ?thesis by auto
  qed
  have ex1: "fst (get_plugin ''builtin'' ''latest''
          (register_plugin ''builtin'' ''2.0.0'' f2
            (register_plugin ''builtin'' ''1.0.0'' f1 PluginRegistry_init))) = Inr (f2 ())"
    by (simp add: get_plugin_def register_plugin_def PluginRegistry_init_def py_last_def)
  have ex2: "fst (get_plugin ''builtin'' ''latest''
          (register_plugin ''builtin'' ''10.0.0'' f10
            (register_plugin ''builtin'' ''2.0.0'' f2
              (register_plugin ''builtin'' ''1.0.0'' f1 PluginRegistry_init)))) = Inr (f2 ())"
    by (simp add: get_plugin_def register_plugin_def PluginRegistry_init_def py_last_def)
  have ex3: "''10.0.0'' < ''2.0.0''" by simp
  from general ex1 ex2 ex3 show ?thesis by blast
qed

theorem get_plugin_latest_lexicographic_witness:
  "map_of [(''builtin'', [(''2.0.0'', \<lambda>_. 2), (''10.0.0'', \<lambda>_. 10)])] ''builtin''
     = Some [(''2.0.0'', \<lambda>_. 2), (''10.0.0'', \<lambda>_. (10::nat))]
   \<and> [(''2.0.0'', \<lambda>_. 2), (''10.0.0'', \<lambda>_. (10::nat))] \<noteq> []
   \<and> Max (fst ` set [(''2.0.0'', \<lambda>_. 2), (''10.0.0'', \<lambda>_. (10::nat))]) = ''2.0.0''
   \<and> fst (get_plugin ''builtin'' ''latest''
          [(''builtin'', [(''2.0.0'', \<lambda>_. 2), (''10.0.0'', \<lambda>_. (10::nat))])]) = Inr 2"
  using get_plugin_latest_lexicographic
    [of "[(''builtin'', [(''2.0.0'', \<lambda>_. 2), (''10.0.0'', \<lambda>_. (10::nat))])]" "''builtin''"
        "[(''2.0.0'', \<lambda>_. 2), (''10.0.0'', \<lambda>_. (10::nat))]"
        "\<lambda>_. 2" "\<lambda>_. 1" "\<lambda>_. 10"]
  by (auto simp: max_def)











section \<open>BuiltinConfig: validation\<close>



section \<open>BuiltinV2 against BuiltinV1\<close>

lemma pre_configure_success:
  "pre_configure int_conv str_conv profile (self, lg) = (Inr (), self', lg') \<Longrightarrow>
     \<exists>c. BuiltinConfig_init int_conv str_conv profile = Inr c \<and> self' = self\<lparr>config := Some c\<rparr>
       \<and> lg' = (case py_class self of
                  BuiltinV1 \<Rightarrow> lg
                | BuiltinV2 \<Rightarrow>
                    lg @ [(''INFO'', ''Using builtin plugin v2.0.0 for profile '' @ [CHR 0x27]
                             @ py_str str_conv (dict_get profile ''name'' (PyStr ''unknown''))
                             @ [CHR 0x27])])"
  by (auto simp: pre_configure_def set_config_def split: sum.splits builtin_cls.splits)

text \<open>
  C8. When a \<open>BuiltinV1\<close> instance and a \<open>BuiltinV2\<close> instance both accept a profile
  in \<open>pre_configure\<close>, they hold the same config (the one \<open>BuiltinConfig\<close> builds from
  the profile), \<open>get_node_count\<close> and \<open>get_container_count\<close> give the same results on
  both, the hostnames of \<open>BuiltinV2\<close> are those of \<open>BuiltinV1\<close> with \<open>v2-\<close> in front,
  \<open>BuiltinV1\<close> logs nothing and \<open>BuiltinV2\<close> logs one \<open>INFO\<close> line.
\<close>

theorem BuiltinV2_refines_BuiltinV1:
  assumes "pre_configure int_conv str_conv profile (\<lparr>py_class = BuiltinV1, config = c1\<rparr>, lg)
             = (Inr (), self1, lg1)"
    and "pre_configure int_conv str_conv profile (\<lparr>py_class = BuiltinV2, config = c2\<rparr>, lg)
             = (Inr (), self2, lg2)"
  shows "config self1 = config self2
     \<and> (\<exists>c. BuiltinConfig_init int_conv str_conv profile = Inr c \<and> config self2 = Some c)
     \<and> get_node_count self2 = get_node_count self1
     \<and> get_container_count self2 i = get_container_count self1 i
     \<and> get_hostname self2 i = map_sum id (\<lambda>h. ''v2-'' @ h) (get_hostname self1 i)
     \<and> lg1 = lg
     \<and> lg2 = lg @ [(''INFO'', ''Using builtin plugin v2.0.0 for profile '' @ [CHR 0x27]
                      @ py_str str_conv (dict_get profile ''name'' (PyStr ''unknown''))
                      @ [CHR 0x27])]"
proof -
  from pre_configure_success [OF assms(1)] obtain c where
    c: "BuiltinConfig_init int_conv str_conv profile = Inr c"
    and s1: "self1 = \<lparr>py_class = BuiltinV1, config = Some c\<rparr>" and l1: "lg1 = lg"
    by auto
  from pre_configure_success [OF assms(2)] c have
    s2: "self2 = \<lparr>py_class = BuiltinV2, config = Some c\<rparr>"
    and l2: "lg2 = lg @ [(''INFO'', ''Using builtin plugin v2.0.0 for profile '' @ [CHR 0x27]
                      @ py_str str_conv (dict_get profile ''name'' (PyStr ''unknown''))
                      @ [CHR 0x27])]"
    by auto
  have n: "get_node_count self2 = get_node_count self1"
    by (simp add: s1 s2 get_node_count_def)
  have k: "get_container_count self2 i = get_container_count self1 i"
    by (simp add: s1 s2 get_container_count_def get_node_count_def)
  have h: "get_hostname self2 i = map_sum id (\<lambda>h. ''v2-'' @ h) (get_hostname self1 i)"
    by (simp add: s1 s2 get_hostname_def)
  from c s1 s2 l1 l2 n k h show ?thesis by simp
qed

theorem BuiltinV2_refines_BuiltinV1_witness:
  "pre_configure (\<lambda>v. Inl (TypeError '''')) (\<lambda>u. '''')
      [''name'' \<mapsto> PyStr ''web'', ''containers'' \<mapsto> PyInt 105,
       ''containers_per_node'' \<mapsto> (PyInt 10 :: unit pyval)]
      (new_plugin BuiltinV1, [])
     = (Inr (), \<lparr>py_class = BuiltinV1,
                  config = Some \<lparr>count = 1, containers = 105, containers_per_node = 10,
                                  hostname_prefix = ''node''\<rparr>\<rparr>, [])
   \<and> pre_configure (\<lambda>v. Inl (TypeError '''')) (\<lambda>u. '''')
      [''name'' \<mapsto> PyStr ''web'', ''containers'' \<mapsto> PyInt 105,
       ''containers_per_node'' \<mapsto> (PyInt 10 :: unit pyval)]
      (new_plugin BuiltinV2, [])
     = (Inr (), \<lparr>py_class = BuiltinV2,
                  config = Some \<lparr>count = 1, containers = 105, containers_per_node = 10,
                                  hostname_prefix = ''node''\<rparr>\<rparr>,
        [(''INFO'', ''Using builtin plugin v2.0.0 for profile 'web'' @ [CHR 0x27])])
   \<and> get_hostname \<lparr>py_class = BuiltinV1,
                  config = Some \<lparr>count = 1, containers = 105, containers_per_node = 10,
                                  hostname_prefix = ''node''\<rparr>\<rparr> 3 = Inr ''node-3''
   \<and> get_hostname \<lparr>py_class = BuiltinV2,
                  config = Some \<lparr>count = 1, containers = 105, containers_per_node = 10,
                                  hostname_prefix = ''node''\<rparr>\<rparr> 3 = Inr ''v2-node-3''"
proof -
  let ?ic = "\<lambda>v :: unit pyval. (Inl (TypeError '''') :: error + int)"
  let ?sc = "\<lambda>u :: unit. ''''"
  let ?pr = "[''name'' \<mapsto> PyStr ''web'', ''containers'' \<mapsto> PyInt 105,
       ''containers_per_node'' \<mapsto> (PyInt 10 :: unit pyval)]"
  let ?cfg = "\<lparr>count = 1, containers = 105, containers_per_node = 10,
                                  hostname_prefix = ''node''\<rparr>"
  have a1: "pre_configure ?ic ?sc ?pr (\<lparr>py_class = BuiltinV1, config = None\<rparr>, [])
     = (Inr (), \<lparr>py_class = BuiltinV1, config = Some ?cfg\<rparr>, [])"
    by (simp add: pre_configure_def set_config_def BuiltinConfig_init_def dict_get_def)
  have a2: "pre_configure ?ic ?sc ?pr (\<lparr>py_class = BuiltinV2, config = None\<rparr>, [])
     = (Inr (), \<lparr>py_class = BuiltinV2, config = Some ?cfg\<rparr>,
        [(''INFO'', ''Using builtin plugin v2.0.0 for profile 'web'' @ [CHR 0x27])])"
    by (simp add: pre_configure_def set_config_def BuiltinConfig_init_def dict_get_def)
  have h1: "get_hostname \<lparr>py_class = BuiltinV1, config = Some ?cfg\<rparr> 3 = Inr ''node-3''"
    by (simp add: get_hostname_def str_int_def str_nat.simps)
  from BuiltinV2_refines_BuiltinV1 [OF a1 a2, of 3] h1
  have "get_hostname \<lparr>py_class = BuiltinV2, config = Some ?cfg\<rparr> 3 = Inr ''v2-node-3''"
    by simp
  with a1 a2 h1 show ?thesis by (simp add: new_plugin_def)
qed

section \<open>BuiltinV1: node count and container partition\<close>

lemma get_node_count_fixed:
  assumes "config self = Some c" and "\<not> (0 < containers c \<and> 0 < containers_per_node c)"
  shows "get_node_count self = Inr (count c)"
  using assms by (auto simp: get_node_count_def)

lemma get_container_count_fixed:
  assumes "config self = Some c" and "\<not> (0 < containers c \<and> 0 < containers_per_node c)"
  shows "get_container_count self i = Inr 0"
  using assms by (auto simp: get_container_count_def)

lemma get_container_count_partition:
  assumes "config self = Some c" and "0 < containers c" and "0 < containers_per_node c"
    and "get_node_count self = Inr n"
  shows "get_container_count self i =
           Inr (if i = n then containers c - (n - 1) * containers_per_node c
                else containers_per_node c)"
  using assms by (simp add: get_container_count_def)

lemma get_container_count_error:
  assumes "config self = Some c" and "0 < containers c" and "0 < containers_per_node c"
    and "get_node_count self = Inl err"
  shows "get_container_count self i = Inl err"
  using assms by (simp add: get_container_count_def)

lemma sum_results_Inr: "sum_results (map (\<lambda>i. Inr (g i)) xs) = Inr (sum_list (map g xs))"
  by (induction xs) simp_all

lemma sum_list_full_nodes:
  assumes "k < n" and "0 \<le> k"
  shows "sum_list (map (\<lambda>i. if i = n then x else p) [1..k]) = k * (p::int)"
proof -
  have "map (\<lambda>i. if i = n then x else p) [1..k] = map (\<lambda>i. p) [1..k]"
    using assms(1) by (intro map_cong) auto
  then have "sum_list (map (\<lambda>i. if i = n then x else p) [1..k])
      = sum_list (map (\<lambda>i. p) [1..k])"
    by (simp only:)
  also have "\<dots> = int (length [1..k]) * p"
    by (simp add: sum_list_triv)
  also have "int (length [1..k]) = k" using assms(2) by simp
  finally show ?thesis .
qed

lemma total_container_count_partition:
  assumes "config self = Some c" and "0 < containers c" and "0 < containers_per_node c"
    and "get_node_count self = Inr n" and "1 \<le> n"
  shows "total_container_count self = Inr (containers c)"
proof -
  let ?g = "\<lambda>i. if i = n then containers c - (n - 1) * containers_per_node c
                else containers_per_node c"
  have "get_container_count self = (\<lambda>i. Inr (?g i))"
    using get_container_count_partition [OF assms(1-4)] by (intro ext) simp
  then have "total_container_count self = Inr (sum_list (map ?g [1..n]))"
    using assms(4) sum_results_Inr [of ?g "[1..n]"] by (simp add: total_container_count_def)
  moreover have "[1..n] = [1..n - 1] @ [n]"
    using assms(5) by (simp add: upto_rec2)
  moreover have "sum_list (map ?g [1..n - 1]) = (n - 1) * containers_per_node c"
    using sum_list_full_nodes [of "n - 1" n] assms(5) by simp
  ultimately show ?thesis by simp
qed

text \<open>The three cases of \<^verbatim>\<open>test_builtin_container_calculation\<close> in \<^verbatim>\<open>tests/test_scale.py\<close>.\<close>

lemma py_truediv_100_10: "py_truediv 100 10 = Inr (5629499534213120, - 49)"
  by code_simp

lemma py_truediv_105_10: "py_truediv 105 10 = Inr (5910974510923776, - 49)"
  by code_simp

lemma test_builtin_container_calculation:
  "get_node_count \<lparr>py_class = BuiltinV1, config = Some \<lparr>count = 5, containers = 0,
      containers_per_node = 0, hostname_prefix = ''node''\<rparr>\<rparr> = Inr 5"
  "get_container_count \<lparr>py_class = BuiltinV1, config = Some \<lparr>count = 5, containers = 0,
      containers_per_node = 0, hostname_prefix = ''node''\<rparr>\<rparr> 1 = Inr 0"
  "get_node_count \<lparr>py_class = BuiltinV1, config = Some \<lparr>count = 1, containers = 100,
      containers_per_node = 10, hostname_prefix = ''node''\<rparr>\<rparr> = Inr 10"
  "get_container_count \<lparr>py_class = BuiltinV1, config = Some \<lparr>count = 1, containers = 100,
      containers_per_node = 10, hostname_prefix = ''node''\<rparr>\<rparr> 1 = Inr 10"
  "get_container_count \<lparr>py_class = BuiltinV1, config = Some \<lparr>count = 1, containers = 100,
      containers_per_node = 10, hostname_prefix = ''node''\<rparr>\<rparr> 10 = Inr 10"
  "get_node_count \<lparr>py_class = BuiltinV1, config = Some \<lparr>count = 1, containers = 105,
      containers_per_node = 10, hostname_prefix = ''node''\<rparr>\<rparr> = Inr 11"
  "get_container_count \<lparr>py_class = BuiltinV1, config = Some \<lparr>count = 1, containers = 105,
      containers_per_node = 10, hostname_prefix = ''node''\<rparr>\<rparr> 1 = Inr 10"
  "get_container_count \<lparr>py_class = BuiltinV1, config = Some \<lparr>count = 1, containers = 105,
      containers_per_node = 10, hostname_prefix = ''node''\<rparr>\<rparr> 11 = Inr 5"
  by (simp_all add: get_node_count_def get_container_count_def py_truediv_100_10
      py_truediv_105_10 math_ceil_def)

section \<open>The node count on large quotients\<close>

text \<open>
  \<^verbatim>\<open>get_node_count\<close> takes the ceiling of a double, not of the quotient. Three
  validated configs show what follows: a quotient that is rounded down to an integer,
  one that is rounded to \<open>0.0\<close>, and one that is beyond the doubles.
\<close>

lemma py_truediv_3e17: "py_truediv 300000000000000001 100000000000000000
    = Inr (6755399441055744, - 51)"
  by code_simp

lemma config_3e17:
  "BuiltinConfig_init int_conv str_conv
     [''containers'' \<mapsto> PyInt 300000000000000001,
      ''containers_per_node'' \<mapsto> PyInt 100000000000000000]
   = Inr \<lparr>count = 1, containers = 300000000000000001,
          containers_per_node = 100000000000000000, hostname_prefix = ''node''\<rparr>"
  by (simp add: BuiltinConfig_init_def dict_get_def)

lemma config_underflow:
  "BuiltinConfig_init int_conv str_conv
     [''containers'' \<mapsto> PyInt 1, ''containers_per_node'' \<mapsto> PyInt (2 ^ 1076)]
   = Inr \<lparr>count = 1, containers = 1, containers_per_node = 2 ^ 1076,
          hostname_prefix = ''node''\<rparr>"
proof -
  have "\<not> (2::int) ^ 1076 < 0" by (simp del: power_numeral)
  then show ?thesis
    by (simp add: BuiltinConfig_init_def dict_get_def del: power_numeral)
qed

lemma config_overflow:
  "BuiltinConfig_init int_conv str_conv
     [''containers'' \<mapsto> PyInt (2 ^ 1024), ''containers_per_node'' \<mapsto> PyInt 1]
   = Inr \<lparr>count = 1, containers = 2 ^ 1024, containers_per_node = 1,
          hostname_prefix = ''node''\<rparr>"
proof -
  have "\<not> (2::int) ^ 1024 < 0" by (simp del: power_numeral)
  then show ?thesis
    by (simp add: BuiltinConfig_init_def dict_get_def del: power_numeral)
qed

lemma get_node_count_underflow:
  "get_node_count \<lparr>py_class = BuiltinV1, config = Some \<lparr>count = 1, containers = 1,
      containers_per_node = 2 ^ 1076, hostname_prefix = ''node''\<rparr>\<rparr> = Inr 0"
proof -
  have "(0::int) < 2 ^ 1076" by (simp del: power_numeral)
  then show ?thesis
    by (simp add: get_node_count_def py_truediv_underflow math_ceil_def del: power_numeral)
qed

lemma get_node_count_overflow:
  "get_node_count \<lparr>py_class = BuiltinV1, config = Some \<lparr>count = 1, containers = 2 ^ 1024,
      containers_per_node = 1, hostname_prefix = ''node''\<rparr>\<rparr> = Inl OverflowError"
proof -
  have "(0::int) < 2 ^ 1024" by (simp del: power_numeral)
  then show ?thesis
    by (simp add: get_node_count_def py_truediv_overflow del: power_numeral)
qed

text \<open>
  C2, at \<open>containers = 300000000000000001\<close> and
  \<open>containers_per_node = 100000000000000000\<close>: the config passes validation, the
  ceiling of the quotient is 4, and \<open>get_node_count\<close> returns 3, so that three nodes
  of \<open>containers_per_node\<close> containers each do not hold the containers.
\<close>

theorem get_node_count_not_ceiling:
  "BuiltinConfig_init int_conv str_conv
     [''containers'' \<mapsto> PyInt 300000000000000001,
      ''containers_per_node'' \<mapsto> PyInt 100000000000000000]
   = Inr \<lparr>count = 1, containers = 300000000000000001,
          containers_per_node = 100000000000000000, hostname_prefix = ''node''\<rparr>
   \<and> get_node_count \<lparr>py_class = BuiltinV1, config = Some \<lparr>count = 1,
        containers = 300000000000000001, containers_per_node = 100000000000000000,
        hostname_prefix = ''node''\<rparr>\<rparr> = Inr 3
   \<and> \<lceil>(300000000000000001 :: real) / 100000000000000000\<rceil> = 4
   \<and> (3::int) * 100000000000000000 < 300000000000000001"
proof -
  have n: "get_node_count \<lparr>py_class = BuiltinV1, config = Some \<lparr>count = 1,
        containers = 300000000000000001, containers_per_node = 100000000000000000,
        hostname_prefix = ''node''\<rparr>\<rparr> = Inr 3"
    by (simp add: get_node_count_def py_truediv_3e17 math_ceil_def)
  have c: "\<lceil>(300000000000000001 :: real) / 100000000000000000\<rceil> = 4"
    by (simp add: ceiling_eq_iff)
  from config_3e17 [of int_conv str_conv] n c show ?thesis by simp
qed

text \<open>
  C6, at \<open>containers = 1\<close> and \<open>containers_per_node = 2 ^ 1076\<close>: the config passes
  validation and \<open>get_node_count\<close> returns 0.
\<close>

theorem get_node_count_zero:
  "BuiltinConfig_init int_conv str_conv
     [''containers'' \<mapsto> PyInt 1, ''containers_per_node'' \<mapsto> PyInt (2 ^ 1076)]
   = Inr \<lparr>count = 1, containers = 1, containers_per_node = 2 ^ 1076,
          hostname_prefix = ''node''\<rparr>
   \<and> get_node_count \<lparr>py_class = BuiltinV1, config = Some \<lparr>count = 1, containers = 1,
        containers_per_node = 2 ^ 1076, hostname_prefix = ''node''\<rparr>\<rparr> = Inr 0"
  using config_underflow [of int_conv str_conv] get_node_count_underflow
  by (simp only: simp_thms)

text \<open>
  C1, at the same config: the node count is 0, so the sum of \<open>get_container_count\<close>
  over the nodes 1 to \<open>get_node_count\<close> is 0, and \<open>containers\<close> is 1.
\<close>

theorem total_container_count_zero:
  "get_node_count \<lparr>py_class = BuiltinV1, config = Some \<lparr>count = 1, containers = 1,
        containers_per_node = 2 ^ 1076, hostname_prefix = ''node''\<rparr>\<rparr> = Inr 0
   \<and> total_container_count \<lparr>py_class = BuiltinV1, config = Some \<lparr>count = 1, containers = 1,
        containers_per_node = 2 ^ 1076, hostname_prefix = ''node''\<rparr>\<rparr> = Inr 0
   \<and> containers \<lparr>count = 1, containers = 1, containers_per_node = 2 ^ 1076,
        hostname_prefix = ''node''\<rparr> = 1"
  using get_node_count_underflow
  by (simp add: total_container_count_def del: power_numeral)

text \<open>
  C10, at \<open>containers = 2 ^ 1024\<close> and \<open>containers_per_node = 1\<close>: the config passes
  validation, and \<open>get_container_count\<close> raises \<open>OverflowError\<close> at every index.
\<close>

theorem get_container_count_raises:
  "BuiltinConfig_init int_conv str_conv
     [''containers'' \<mapsto> PyInt (2 ^ 1024), ''containers_per_node'' \<mapsto> PyInt 1]
   = Inr \<lparr>count = 1, containers = 2 ^ 1024, containers_per_node = 1,
          hostname_prefix = ''node''\<rparr>
   \<and> get_container_count \<lparr>py_class = BuiltinV1, config = Some \<lparr>count = 1,
        containers = 2 ^ 1024, containers_per_node = 1, hostname_prefix = ''node''\<rparr>\<rparr> index
       = Inl OverflowError"
proof -
  have "(0::int) < 2 ^ 1024" by (simp del: power_numeral)
  then have "get_container_count \<lparr>py_class = BuiltinV1, config = Some \<lparr>count = 1,
        containers = 2 ^ 1024, containers_per_node = 1, hostname_prefix = ''node''\<rparr>\<rparr> index
       = Inl OverflowError"
    using get_node_count_overflow
    by (simp add: get_container_count_def del: power_numeral)
  with config_overflow [of int_conv str_conv] show ?thesis by (simp only: simp_thms)
qed

section \<open>Extended strategy: the first endpoint address\<close>

lemma str_nat_octets:
  "str_nat 192 = ''192''" "str_nat 168 = ''168''" "str_nat 50 = ''50''"
  "str_nat 1 = ''1''" "str_nat (Suc 0) = ''1''" "str_nat 10 = ''10''" "str_nat 24 = ''24''"
  by (simp_all add: str_nat.simps)

lemma hd_get_container_details:
  "hd (get_container_details (r # rs) c 1) = endpoint c (first_address c) r"
  by (simp add: get_container_details_def)

text \<open>
  Claim C9. The first endpoint of node 1 takes the address after the base address when
  all host bits of the CIDR's address portion are zero, and the address portion itself
  otherwise; its \<^verbatim>\<open>ips[0]\<close> is that address followed by the prefix length. For
  192.168.50.0/24 this is 192.168.50.1 and \<^verbatim>\<open>192.168.50.1/24\<close>, for 192.168.50.10/24
  it is 192.168.50.10.
\<close>

theorem first_endpoint_address:
  "(host_bits c = 0 \<longrightarrow>
      topology_ip (hd (get_container_details (r # rs) c 1)) = str_ip (address c + 1)
    \<and> ips (hd (get_container_details (r # rs) c 1)) ! 0
        = str_ip (address c + 1) @ ''/'' @ str_nat (prefix_len c))
   \<and> (host_bits c \<noteq> 0 \<longrightarrow>
      topology_ip (hd (get_container_details (r # rs) c 1)) = str_ip (address c)
    \<and> ips (hd (get_container_details (r # rs) c 1)) ! 0
        = str_ip (address c) @ ''/'' @ str_nat (prefix_len c))
   \<and> host_bits \<lparr>address = ip4 192 168 50 0, prefix_len = 24\<rparr> = 0
   \<and> topology_ip (hd (get_container_details (r # rs)
         \<lparr>address = ip4 192 168 50 0, prefix_len = 24\<rparr> 1)) = ''192.168.50.1''
   \<and> ips (hd (get_container_details (r # rs)
         \<lparr>address = ip4 192 168 50 0, prefix_len = 24\<rparr> 1)) ! 0 = ''192.168.50.1/24''
   \<and> host_bits \<lparr>address = ip4 192 168 50 10, prefix_len = 24\<rparr> \<noteq> 0
   \<and> topology_ip (hd (get_container_details (r # rs)
         \<lparr>address = ip4 192 168 50 10, prefix_len = 24\<rparr> 1)) = ''192.168.50.10''
   \<and> ips (hd (get_container_details (r # rs)
         \<lparr>address = ip4 192 168 50 10, prefix_len = 24\<rparr> 1)) ! 0 = ''192.168.50.10/24''"
  unfolding hd_get_container_details
  by (simp add: endpoint_def first_address_def host_bits_def ip4_def str_ip_def str_nat_octets)

theorem first_endpoint_address_witness:
  "host_bits \<lparr>address = ip4 192 168 50 0, prefix_len = 24\<rparr> = 0
   \<and> topology_ip (hd (get_container_details [''main-controller'', ''yaw-controller'']
         \<lparr>address = ip4 192 168 50 0, prefix_len = 24\<rparr> 1)) = str_ip (ip4 192 168 50 0 + 1)
   \<and> str_ip (ip4 192 168 50 0 + 1) = ''192.168.50.1''
   \<and> host_bits \<lparr>address = ip4 10 0 0 7, prefix_len = 8\<rparr> \<noteq> 0
   \<and> topology_ip (hd (get_container_details [''main-controller'', ''yaw-controller'']
         \<lparr>address = ip4 10 0 0 7, prefix_len = 8\<rparr> 1)) = str_ip (ip4 10 0 0 7)"
  using first_endpoint_address [of "\<lparr>address = ip4 192 168 50 0, prefix_len = 24\<rparr>"
      "''main-controller''" "[''yaw-controller'']"]
    first_endpoint_address [of "\<lparr>address = ip4 10 0 0 7, prefix_len = 8\<rparr>"
      "''main-controller''" "[''yaw-controller'']"]
  by (simp add: host_bits_def ip4_def str_ip_def str_nat_octets)

end
